theory Spec2Isabelle
  imports Complex_Main
begin

section \<open>Floating-point values\<close>

text \<open>
  The helpers of \<^verbatim>\<open>utils.py\<close> compute with numpy's \<^verbatim>\<open>float64\<close>. A value is a
  finite number, one of the two infinities, or not-a-number; pandas stores a missing
  entry as not-a-number. Finite arithmetic is taken exact (rounding and overflow are
  left out, and the two zeros are one); the special values follow IEEE 754, which is
  what numpy does: an undefined operation returns \<open>NaN\<close> with a warning and raises
  nothing.
\<close>

datatype float64 = Finite real | PosInf | NegInf | NaN


fun f_neg :: "float64 \<Rightarrow> float64" where
  "f_neg (Finite a) = Finite (- a)"
| "f_neg PosInf = NegInf"
| "f_neg NegInf = PosInf"
| "f_neg NaN = NaN"

fun f_add :: "float64 \<Rightarrow> float64 \<Rightarrow> float64" where
  "f_add (Finite a) (Finite b) = Finite (a + b)"
| "f_add NaN _ = NaN"
| "f_add _ NaN = NaN"
| "f_add PosInf NegInf = NaN"
| "f_add NegInf PosInf = NaN"
| "f_add PosInf _ = PosInf"
| "f_add _ PosInf = PosInf"
| "f_add NegInf _ = NegInf"
| "f_add _ NegInf = NegInf"

definition f_sub :: "float64 \<Rightarrow> float64 \<Rightarrow> float64" where
  "f_sub a b = f_add a (f_neg b)"

text \<open>The product of an infinity and a finite factor: undefined at zero, signed otherwise.\<close>

definition inf_times :: "float64 \<Rightarrow> real \<Rightarrow> float64" where
  "inf_times i a = (if a = 0 then NaN else if 0 < a then i else f_neg i)"

fun f_mul :: "float64 \<Rightarrow> float64 \<Rightarrow> float64" where
  "f_mul (Finite a) (Finite b) = Finite (a * b)"
| "f_mul NaN _ = NaN"
| "f_mul _ NaN = NaN"
| "f_mul (Finite a) i = inf_times i a"
| "f_mul i (Finite b) = inf_times i b"
| "f_mul PosInf i = i"
| "f_mul NegInf i = f_neg i"

text \<open>
  Division: a finite value over zero is an infinity of the dividend's sign, zero over
  zero and an infinity over an infinity are undefined, a finite value over an infinity
  is zero.
\<close>

fun f_div :: "float64 \<Rightarrow> float64 \<Rightarrow> float64" where
  "f_div (Finite a) (Finite b) =
     (if b = 0 then (if a = 0 then NaN else if 0 < a then PosInf else NegInf)
      else Finite (a / b))"
| "f_div NaN _ = NaN"
| "f_div _ NaN = NaN"
| "f_div (Finite a) _ = Finite 0"
| "f_div i (Finite b) = (if 0 \<le> b then i else f_neg i)"
| "f_div _ _ = NaN"

fun f_sqrt :: "float64 \<Rightarrow> float64" where
  "f_sqrt (Finite a) = (if a < 0 then NaN else Finite (sqrt a))"
| "f_sqrt PosInf = PosInf"
| "f_sqrt _ = NaN"

text \<open>Comparison: false as soon as one side is not-a-number.\<close>

fun f_lt :: "float64 \<Rightarrow> float64 \<Rightarrow> bool" where
  "f_lt (Finite a) (Finite b) = (a < b)"
| "f_lt NaN _ = False"
| "f_lt _ NaN = False"
| "f_lt _ NegInf = False"
| "f_lt PosInf _ = False"
| "f_lt _ _ = True"

definition f_gt :: "float64 \<Rightarrow> float64 \<Rightarrow> bool" where
  "f_gt a b = f_lt b a"

definition f_le :: "float64 \<Rightarrow> float64 \<Rightarrow> bool" where
  "f_le a b = (a \<noteq> NaN \<and> b \<noteq> NaN \<and> \<not> f_lt b a)"

text \<open>The sum of a sequence, from zero.\<close>

definition f_sum :: "float64 list \<Rightarrow> float64" where
  "f_sum xs = foldl f_add (Finite 0) xs"

section \<open>Cohen's d (\<^verbatim>\<open>utils.cohens_d\<close>)\<close>

text \<open>
  \<^verbatim>\<open>np.mean\<close>: the sum over the count; the mean of no value is \<open>0 / 0\<close>.
\<close>

definition np_mean :: "float64 list \<Rightarrow> float64" where
  "np_mean xs = f_div (f_sum xs) (Finite (real (length xs)))"

text \<open>
  \<^verbatim>\<open>np.std(x, ddof=d)\<close>: the root of the sum of squared deviations from the mean
  over \<^verbatim>\<open>max(n - d, 0)\<close>.
\<close>

definition np_var :: "float64 list \<Rightarrow> nat \<Rightarrow> float64" where
  "np_var xs ddof =
     (let arrmean = np_mean xs;
          dev = map (\<lambda>x. f_sub x arrmean) xs;
          ret = f_sum (map (\<lambda>d. f_mul d d) dev);
          rcount = max (int (length xs) - int ddof) 0
      in f_div ret (Finite (real_of_int rcount)))"

definition np_std :: "float64 list \<Rightarrow> nat \<Rightarrow> float64" where
  "np_std xs ddof = f_sqrt (np_var xs ddof)"

text \<open>\<^verbatim>\<open>x**2\<close> on a float.\<close>

definition f_square :: "float64 \<Rightarrow> float64" where
  "f_square x = f_mul x x"

text \<open>A Python integer as an operand of a float operation.\<close>

definition of_py_int :: "int \<Rightarrow> float64" where
  "of_py_int i = Finite (real_of_int i)"

definition pooled_std :: "float64 list \<Rightarrow> float64 list \<Rightarrow> float64" where
  "pooled_std group1 group2 =
     (let std1 = np_std group1 1;
          std2 = np_std group2 1;
          n1 = int (length group1);
          n2 = int (length group2)
      in f_sqrt (f_div (f_add (f_mul (of_py_int (n1 - 1)) (f_square std1))
                              (f_mul (of_py_int (n2 - 1)) (f_square std2)))
                       (of_py_int (n1 + n2 - 2))))"

definition cohens_d :: "float64 list \<Rightarrow> float64 list \<Rightarrow> float64" where
  "cohens_d group1 group2 =
     (let mean1 = np_mean group1;
          mean2 = np_mean group2
      in f_div (f_sub mean1 mean2) (pooled_std group1 group2))"

section \<open>Outlier count (\<^verbatim>\<open>utils.detect_outliers\<close>)\<close>

text \<open>A series of numbers is a list of floats; a missing entry is \<open>NaN\<close>.\<close>

definition dropna :: "float64 list \<Rightarrow> float64 list" where
  "dropna xs = filter (\<lambda>x. x \<noteq> NaN) xs"

fun f_insort :: "float64 \<Rightarrow> float64 list \<Rightarrow> float64 list" where
  "f_insort x [] = [x]"
| "f_insort x (y # ys) = (if f_le x y then x # y # ys else y # f_insort x ys)"

definition f_sort :: "float64 list \<Rightarrow> float64 list" where
  "f_sort xs = foldr f_insort xs []"

text \<open>
  \<^verbatim>\<open>Series.quantile(q)\<close> with its default linear interpolation, for \<open>0 \<le> q \<le> 1\<close>
  (both calls below): the missing entries are dropped and the rest sorted; the
  position \<open>(n - 1) * q\<close> falls between two neighbours \<open>i\<close> and \<open>j\<close>, and the result
  is \<open>i + (j - i) * fraction\<close>. The quantile of no value is \<open>NaN\<close>.
\<close>

definition quantile :: "float64 list \<Rightarrow> real \<Rightarrow> float64" where
  "quantile series q =
     (let vals = f_sort (dropna series); n = length vals
      in if n = 0 then NaN
         else let pos = real (n - 1) * q;
                  lo = nat \<lfloor>pos\<rfloor>;
                  hi = min (lo + 1) (n - 1);
                  fraction = pos - real lo
              in f_add (vals ! lo) (f_mul (f_sub (vals ! hi) (vals ! lo)) (Finite fraction)))"

definition detect_outliers :: "float64 list \<Rightarrow> nat" where
  "detect_outliers series =
     (let q1 = quantile series (1 / 4);
          q3 = quantile series (3 / 4);
          iqr = f_sub q3 q1;
          lower = f_sub q1 (f_mul (Finite (3 / 2)) iqr);
          upper = f_add q3 (f_mul (Finite (3 / 2)) iqr)
      in length (filter (\<lambda>x. f_lt x lower \<or> f_gt x upper) series))"

section \<open>The dataset and the column classifier (\<^verbatim>\<open>utils.classify_columns\<close>)\<close>

text \<open>
  A dataset is a sequence of named columns, each with its storage type and its cells.
  A missing cell is the float \<open>NaN\<close>, in a column of any type.
\<close>

datatype dtype = Int64 | Float64 | Boolean | Object | Datetime

datatype cell = Num float64 | Str string | Bool bool

record column =
  col_name :: string
  col_dtype :: dtype
  col_values :: "cell list"

type_synonym dataframe = "column list"

text \<open>\<^verbatim>\<open>include=np.number\<close> selects the integer and float columns.\<close>

fun is_number :: "dtype \<Rightarrow> bool" where
  "is_number Int64 = True"
| "is_number Float64 = True"
| "is_number _ = False"

definition select_dtypes :: "(dtype \<Rightarrow> bool) \<Rightarrow> dataframe \<Rightarrow> dataframe" where
  "select_dtypes incl d = filter (\<lambda>c. incl (col_dtype c)) d"

definition columns_tolist :: "dataframe \<Rightarrow> string list" where
  "columns_tolist d = map col_name d"

definition classify_columns :: "dataframe \<Rightarrow> string list \<times> string list" where
  "classify_columns d =
     (let num_cols = columns_tolist (select_dtypes is_number d);
          cat_cols = columns_tolist (select_dtypes (\<lambda>t. t = Object) d)
      in (num_cols, cat_cols))"

section \<open>The pipeline (\<^verbatim>\<open>eda_pipeline.EDAPipeline\<close>)\<close>

subsection \<open>Configuration, collaborators, state\<close>

text \<open>The exceptions of a run; each is a subclass of \<^verbatim>\<open>Exception\<close>.\<close>

datatype exn = KeyError string | ValueError string | OSError string | RuntimeError string

record config =
  report_path :: string
  data_path :: string
  id_columns :: "string list option"
  target_column :: string
  outlier_detection :: bool
  plots_distribution :: bool
  plots_target_analysis :: bool
  plots_correlation :: bool

text \<open>
  What the run gets from outside: the CSV reader (the dataset at a path, or the
  exception it raises), the p-values of scipy's t-test and chi-square test, and the
  two calls of the report generator (\<open>Some e\<close>: the call raises \<open>e\<close>). Plotting and
  writing a file are taken to succeed.
\<close>

record env =
  read_csv :: "string \<Rightarrow> exn + dataframe"
  ttest_ind :: "float64 list \<Rightarrow> float64 list \<Rightarrow> float64"
  chi2_p :: "cell list \<Rightarrow> cell list \<Rightarrow> float64"
  sv_analyze :: "dataframe \<Rightarrow> exn option"
  sv_show_html :: "dataframe \<Rightarrow> string \<Rightarrow> exn option"

datatype level = Info | Warning | Error

datatype message =
    Loading_dataset
  | Dataset_shape nat nat
  | ID_columns_removed
  | Duplicate_rows nat
  | Requires_binary_target
  | Sweetviz_failed exn
  | Pipeline_completed

datatype artefact =
    Missing_values_csv "(string \<times> float64) list"
  | Distribution_png string
  | Vs_target_png string string float64 float64
  | Ttest_effectsize_csv "(string \<times> float64 \<times> float64) list"
  | Correlation_png "(string \<times> float64 list) list"
  | Target_correlation_png string "(string \<times> float64) list"
  | Categorical_png string string float64
  | Chi2_csv "(string \<times> float64) list"
  | Outlier_counts_csv "(string \<times> nat) list"
  | Sweetviz_html

text \<open>
  The object's state: the dataset, the two column lists, and what the run has logged
  and written so far (path and content, in the order of the writes). A new object has
  no dataset and no column lists yet; \<^verbatim>\<open>run\<close> loads and classifies before any step reads
  them, so the model starts with empty ones.
\<close>

record state =
  df :: dataframe
  num_cols :: "string list"
  cat_cols :: "string list"
  logged :: "(level \<times> message) list"
  files :: "(string \<times> artefact) list"

definition init :: state where
  "init = \<lparr>df = [], num_cols = [], cat_cols = [], logged = [], files = []\<rparr>"

definition logger :: "level \<Rightarrow> message \<Rightarrow> state \<Rightarrow> state" where
  "logger l m s = s\<lparr>logged := logged s @ [(l, m)]\<rparr>"

definition save :: "string \<Rightarrow> artefact \<Rightarrow> state \<Rightarrow> state" where
  "save path a s = s\<lparr>files := files s @ [(path, a)]\<rparr>"

text \<open>\<^verbatim>\<open>df[name]\<close>: the column of that name, or \<^verbatim>\<open>KeyError\<close>.\<close>

definition getitem :: "dataframe \<Rightarrow> string \<Rightarrow> exn + column" where
  "getitem d k = (case find (\<lambda>c. col_name c = k) d of
                    None \<Rightarrow> Inl (KeyError k)
                  | Some c \<Rightarrow> Inr c)"

text \<open>A \<^verbatim>\<open>for\<close> loop over a list: the body runs in order, the first exception ends it.\<close>

fun for_each :: "('a \<Rightarrow> 's \<Rightarrow> exn + 's) \<Rightarrow> 'a list \<Rightarrow> 's \<Rightarrow> exn + 's" where
  "for_each body [] s = Inr s"
| "for_each body (x # xs) s =
     (case body x s of Inl e \<Rightarrow> Inl e | Inr s' \<Rightarrow> for_each body xs s')"

subsection \<open>Loading and describing the dataset\<close>

definition nrows :: "dataframe \<Rightarrow> nat" where
  "nrows d = (case d of [] \<Rightarrow> 0 | c # _ \<Rightarrow> length (col_values c))"

definition load_data :: "config \<Rightarrow> env \<Rightarrow> state \<Rightarrow> exn + state" where
  "load_data cfg ev s =
     (let s1 = logger Info Loading_dataset s
      in case read_csv ev (data_path cfg) of
           Inl e \<Rightarrow> Inl e
         | Inr d \<Rightarrow> Inr (logger Info (Dataset_shape (nrows d) (length d)) (s1\<lparr>df := d\<rparr>)))"

text \<open>\<^verbatim>\<open>drop(columns=ids, errors="ignore")\<close>: a name that is no column is skipped.\<close>

definition drop_columns :: "string list \<Rightarrow> dataframe \<Rightarrow> dataframe" where
  "drop_columns ids d = filter (\<lambda>c. col_name c \<notin> set ids) d"

definition drop_id_columns :: "config \<Rightarrow> state \<Rightarrow> exn + state" where
  "drop_id_columns cfg s =
     (let ids = (case id_columns cfg of None \<Rightarrow> [] | Some l \<Rightarrow> l)
      in Inr (logger Info ID_columns_removed (s\<lparr>df := drop_columns ids (df s)\<rparr>)))"

definition isnull :: "cell \<Rightarrow> bool" where
  "isnull v = (v = Num NaN)"

text \<open>\<^verbatim>\<open>isnull().mean()\<close> of one column: the share of its missing cells.\<close>

definition isnull_mean :: "column \<Rightarrow> float64" where
  "isnull_mean c =
     f_div (Finite (real (length (filter isnull (col_values c)))))
           (Finite (real (length (col_values c))))"

definition missing_value_analysis :: "config \<Rightarrow> state \<Rightarrow> exn + state" where
  "missing_value_analysis cfg s =
     (let ratios = map (\<lambda>c. (col_name c, isnull_mean c)) (df s);
          missing = filter (\<lambda>(k, r). f_gt r (Finite 0)) ratios
      in Inr (save (report_path cfg @ ''missing_values.csv'') (Missing_values_csv missing) s))"

text \<open>\<^verbatim>\<open>duplicated().sum()\<close>: the rows equal to an earlier row.\<close>

definition duplicated_sum :: "dataframe \<Rightarrow> nat" where
  "duplicated_sum d =
     (let rows = transpose (map col_values d) in length rows - length (remdups rows))"

definition duplicate_analysis :: "state \<Rightarrow> exn + state" where
  "duplicate_analysis s = Inr (logger Info (Duplicate_rows (duplicated_sum (df s))) s)"

definition classify_columns_method :: "state \<Rightarrow> exn + state" where
  "classify_columns_method s =
     (case classify_columns (df s) of
        (n, c) \<Rightarrow> Inr (s\<lparr>num_cols := n, cat_cols := c\<rparr>))"

subsection \<open>Distribution plots\<close>

definition distribution_plots :: "config \<Rightarrow> state \<Rightarrow> exn + state" where
  "distribution_plots cfg s =
     (if \<not> plots_distribution cfg then Inr s
      else for_each
             (\<lambda>col s. case getitem (df s) col of
                         Inl e \<Rightarrow> Inl e
                       | Inr c \<Rightarrow>
                           Inr (save (report_path cfg @ col @ ''_distribution.png'')
                                     (Distribution_png col) s))
             (num_cols s) s)"

subsection \<open>Target analysis\<close>

text \<open>
  \<^verbatim>\<open>Series.unique()\<close>: the distinct cells in the order of their first appearance;
  the missing cell is one of them when the column has one.
\<close>

definition unique :: "'a list \<Rightarrow> 'a list" where
  "unique xs = rev (remdups (rev xs))"

text \<open>\<^verbatim>\<open>==\<close> on two cells: not-a-number equals nothing, itself included.\<close>

fun py_eq :: "cell \<Rightarrow> cell \<Rightarrow> bool" where
  "py_eq (Num a) (Num b) = (a \<noteq> NaN \<and> a = b)"
| "py_eq (Str a) (Str b) = (a = b)"
| "py_eq (Bool a) (Bool b) = (a = b)"
| "py_eq (Bool a) (Num b) = (b = Finite (if a then 1 else 0))"
| "py_eq (Num a) (Bool b) = (a = Finite (if b then 1 else 0))"
| "py_eq _ _ = False"

text \<open>A cell of a numeric column as a float.\<close>

fun cell_float :: "cell \<Rightarrow> float64" where
  "cell_float (Num a) = a"
| "cell_float (Bool b) = Finite (if b then 1 else 0)"
| "cell_float (Str _) = NaN"

definition as_floats :: "column \<Rightarrow> float64 list" where
  "as_floats c = map cell_float (col_values c)"

text \<open>
  \<^verbatim>\<open>df[df[target] == g][col].dropna()\<close>: the values of a column in the rows of one
  group, without the missing ones.
\<close>

definition group_of :: "column \<Rightarrow> cell \<Rightarrow> column \<Rightarrow> float64 list" where
  "group_of t g c =
     dropna (map (\<lambda>(tv, v). cell_float v)
                 (filter (\<lambda>(tv, v). py_eq tv g) (zip (col_values t) (col_values c))))"

definition target_analysis_body ::
  "config \<Rightarrow> env \<Rightarrow> column \<Rightarrow> cell \<Rightarrow> cell \<Rightarrow> string \<Rightarrow>
   (string \<times> float64 \<times> float64) list \<times> state \<Rightarrow>
   exn + (string \<times> float64 \<times> float64) list \<times> state" where
  "target_analysis_body cfg ev t g1 g2 col acc =
     (case acc of (stats_results, s) \<Rightarrow>
        if col = target_column cfg then Inr (stats_results, s)
        else case getitem (df s) col of
               Inl e \<Rightarrow> Inl e
             | Inr c \<Rightarrow>
                 let group1 = group_of t g1 c;
                     group2 = group_of t g2 c;
                     p_value = ttest_ind ev group1 group2;
                     effect_size = cohens_d group1 group2
                 in Inr (stats_results @ [(col, p_value, effect_size)],
                         save (report_path cfg @ col @ ''_vs_target.png'')
                              (Vs_target_png col (target_column cfg) p_value effect_size) s))"

definition target_analysis :: "config \<Rightarrow> env \<Rightarrow> state \<Rightarrow> exn + state" where
  "target_analysis cfg ev s =
     (if \<not> plots_target_analysis cfg then Inr s
      else case getitem (df s) (target_column cfg) of
             Inl e \<Rightarrow> Inl e
           | Inr t \<Rightarrow>
               let unique_groups = unique (col_values t)
               in if length unique_groups \<noteq> 2
                  then Inr (logger Warning Requires_binary_target s)
                  else let g1 = unique_groups ! 0; g2 = unique_groups ! 1
                       in case for_each (target_analysis_body cfg ev t g1 g2) (num_cols s) ([], s) of
                            Inl e \<Rightarrow> Inl e
                          | Inr (stats_results, s') \<Rightarrow>
                              Inr (save (report_path cfg @ ''ttest_effectsize_results.csv'')
                                        (Ttest_effectsize_csv stats_results) s'))"

subsection \<open>Correlations\<close>

text \<open>
  pandas' Pearson correlation of two columns, over the rows where both have a value:
  the sum of the products of the deviations over the root of the product of the two
  sums of squares; \<open>NaN\<close> without a complete row or when the root is zero.
\<close>

definition pearson :: "float64 list \<Rightarrow> float64 list \<Rightarrow> float64" where
  "pearson xs ys =
     (let pairs = filter (\<lambda>(x, y). x \<noteq> NaN \<and> y \<noteq> NaN) (zip xs ys);
          vx = map fst pairs;
          vy = map snd pairs
      in if length pairs < 1 then NaN
         else let dx = map (\<lambda>x. f_sub x (np_mean vx)) vx;
                  dy = map (\<lambda>y. f_sub y (np_mean vy)) vy;
                  covxy = f_sum (map (\<lambda>(a, b). f_mul a b) (zip dx dy));
                  divisor = f_sqrt (f_mul (f_sum (map f_square dx)) (f_sum (map f_square dy)))
              in if divisor = Finite 0 then NaN else f_div covxy divisor)"

text \<open>\<^verbatim>\<open>df[names]\<close>: the columns of these names, or \<^verbatim>\<open>KeyError\<close>.\<close>

fun getitems :: "dataframe \<Rightarrow> string list \<Rightarrow> exn + column list" where
  "getitems d [] = Inr []"
| "getitems d (k # ks) =
     (case getitem d k of
        Inl e \<Rightarrow> Inl e
      | Inr c \<Rightarrow> (case getitems d ks of Inl e \<Rightarrow> Inl e | Inr cs \<Rightarrow> Inr (c # cs)))"

definition corr :: "column list \<Rightarrow> (string \<times> float64 list) list" where
  "corr cols = map (\<lambda>a. (col_name a, map (\<lambda>b. pearson (as_floats a) (as_floats b)) cols)) cols"

definition correlation_analysis :: "config \<Rightarrow> state \<Rightarrow> exn + state" where
  "correlation_analysis cfg s =
     (if \<not> plots_correlation cfg then Inr s
      else case getitems (df s) (num_cols s) of
             Inl e \<Rightarrow> Inl e
           | Inr cols \<Rightarrow>
               Inr (save (report_path cfg @ ''correlation.png'') (Correlation_png (corr cols)) s))"

text \<open>\<^verbatim>\<open>numeric_only=True\<close> keeps the integer, float and boolean columns.\<close>

fun numeric_only :: "dtype \<Rightarrow> bool" where
  "numeric_only Int64 = True"
| "numeric_only Float64 = True"
| "numeric_only Boolean = True"
| "numeric_only _ = False"

text \<open>
  \<^verbatim>\<open>df.corr(numeric_only=True)[target].drop(target)\<close>: the target's correlation with
  each numeric column, in the order of the columns, without the entry of the target.
\<close>

definition target_corr :: "dataframe \<Rightarrow> string \<Rightarrow> exn + (string \<times> float64) list" where
  "target_corr d target =
     (let numeric = select_dtypes numeric_only d
      in case find (\<lambda>c. col_name c = target) numeric of
           None \<Rightarrow> Inl (KeyError target)
         | Some t \<Rightarrow>
             Inr (filter (\<lambda>(k, v). k \<noteq> target)
                         (map (\<lambda>c. (col_name c, pearson (as_floats c) (as_floats t))) numeric)))"

definition feature_target_correlation :: "config \<Rightarrow> state \<Rightarrow> exn + state" where
  "feature_target_correlation cfg s =
     (let target = target_column cfg
      in case target_corr (df s) target of
           Inl e \<Rightarrow> Inl e
         | Inr bars \<Rightarrow>
             Inr (save (report_path cfg @ ''target_correlation.png'')
                       (Target_correlation_png target bars) s))"

subsection \<open>Chi-square tests, outliers, report\<close>

text \<open>
  \<^verbatim>\<open>pd.crosstab\<close> counts the rows where both cells have a value;
  \<^verbatim>\<open>chi2_contingency\<close> raises \<^verbatim>\<open>ValueError\<close> on a table without data.
\<close>

definition crosstab_empty :: "cell list \<Rightarrow> cell list \<Rightarrow> bool" where
  "crosstab_empty a b = (filter (\<lambda>(x, y). \<not> isnull x \<and> \<not> isnull y) (zip a b) = [])"

definition categorical_body ::
  "config \<Rightarrow> env \<Rightarrow> string \<Rightarrow> (string \<times> float64) list \<times> state \<Rightarrow>
   exn + (string \<times> float64) list \<times> state" where
  "categorical_body cfg ev col acc =
     (case acc of (results, s) \<Rightarrow>
        case getitem (df s) col of
          Inl e \<Rightarrow> Inl e
        | Inr c \<Rightarrow>
            (case getitem (df s) (target_column cfg) of
               Inl e \<Rightarrow> Inl e
             | Inr t \<Rightarrow>
                 if crosstab_empty (col_values c) (col_values t)
                 then Inl (ValueError ''No data; observed has size 0.'')
                 else let p = chi2_p ev (col_values c) (col_values t)
                      in Inr (results @ [(col, p)],
                              save (report_path cfg @ col @ ''_categorical.png'')
                                   (Categorical_png col (target_column cfg) p) s)))"

definition categorical_statistical_tests :: "config \<Rightarrow> env \<Rightarrow> state \<Rightarrow> exn + state" where
  "categorical_statistical_tests cfg ev s =
     (case for_each (categorical_body cfg ev) (cat_cols s) ([], s) of
        Inl e \<Rightarrow> Inl e
      | Inr (results, s') \<Rightarrow>
          Inr (save (report_path cfg @ ''chi2_results.csv'') (Chi2_csv results) s'))"

text \<open>\<^verbatim>\<open>results[col] = v\<close> on a dictionary kept in insertion order.\<close>

fun dict_set :: "('k \<times> 'v) list \<Rightarrow> 'k \<Rightarrow> 'v \<Rightarrow> ('k \<times> 'v) list" where
  "dict_set [] k v = [(k, v)]"
| "dict_set ((k', v') # kvs) k v =
     (if k' = k then (k, v) # kvs else (k', v') # dict_set kvs k v)"

definition outlier_body ::
  "string \<Rightarrow> (string \<times> nat) list \<times> state \<Rightarrow> exn + (string \<times> nat) list \<times> state" where
  "outlier_body col acc =
     (case acc of (results, s) \<Rightarrow>
        case getitem (df s) col of
          Inl e \<Rightarrow> Inl e
        | Inr c \<Rightarrow> Inr (dict_set results col (detect_outliers (as_floats c)), s))"

definition outlier_analysis :: "config \<Rightarrow> state \<Rightarrow> exn + state" where
  "outlier_analysis cfg s =
     (if \<not> outlier_detection cfg then Inr s
      else case for_each outlier_body (num_cols s) ([], s) of
             Inl e \<Rightarrow> Inl e
           | Inr (results, s') \<Rightarrow>
               Inr (save (report_path cfg @ ''outlier_counts.csv'') (Outlier_counts_csv results) s'))"

text \<open>
  The report generator runs inside \<^verbatim>\<open>try\<close>; \<^verbatim>\<open>except Exception\<close> logs what either
  call raises and returns.
\<close>

definition generate_sweetviz :: "config \<Rightarrow> env \<Rightarrow> state \<Rightarrow> exn + state" where
  "generate_sweetviz cfg ev s =
     (case sv_analyze ev (df s) of
        Some e \<Rightarrow> Inr (logger Error (Sweetviz_failed e) s)
      | None \<Rightarrow>
          (case sv_show_html ev (df s) (report_path cfg @ ''sweetviz_report.html'') of
             Some e \<Rightarrow> Inr (logger Error (Sweetviz_failed e) s)
           | None \<Rightarrow> Inr (save (report_path cfg @ ''sweetviz_report.html'') Sweetviz_html s)))"

subsection \<open>The run\<close>

text \<open>The twelve steps of \<^verbatim>\<open>run\<close>, in its order.\<close>

definition steps :: "config \<Rightarrow> env \<Rightarrow> (state \<Rightarrow> exn + state) list" where
  "steps cfg ev =
     [load_data cfg ev,
      drop_id_columns cfg,
      missing_value_analysis cfg,
      duplicate_analysis,
      classify_columns_method,
      distribution_plots cfg,
      target_analysis cfg ev,
      correlation_analysis cfg,
      feature_target_correlation cfg,
      categorical_statistical_tests cfg ev,
      outlier_analysis cfg,
      generate_sweetviz cfg ev]"

definition run_steps :: "(state \<Rightarrow> exn + state) list \<Rightarrow> state \<Rightarrow> exn + state" where
  "run_steps fs s = for_each (\<lambda>f. f) fs s"

definition run :: "config \<Rightarrow> env \<Rightarrow> exn + state" where
  "run cfg ev =
     (case run_steps (steps cfg ev) init of
        Inl e \<Rightarrow> Inl e
      | Inr s \<Rightarrow> Inr (logger Info Pipeline_completed s))"

section \<open>The specification's formulas\<close>







text \<open>
  The specification's outlier rule, in its words: the first and the third quartile by
  linear interpolation over the sorted non-missing values (the \<open>k\<close>-th quartile of \<open>n\<close>
  values lies at position \<open>k (n - 1) / 4\<close>), the fence
  \<open>[Q1 - 1.5 IQR, Q3 + 1.5 IQR]\<close> with \<open>IQR = Q3 - Q1\<close>, and the values strictly
  outside of it.
\<close>

definition spec_quartile :: "float64 list \<Rightarrow> nat \<Rightarrow> float64" where
  "spec_quartile series k =
     (let vals = f_sort (dropna series); n = length vals
      in if n = 0 then NaN
         else let lo = (k * (n - 1)) div 4;
                  r = (k * (n - 1)) mod 4;
                  hi = min (lo + 1) (n - 1)
              in f_add (vals ! lo) (f_mul (f_sub (vals ! hi) (vals ! lo)) (Finite (real r / 4))))"

definition spec_Q1 :: "float64 list \<Rightarrow> float64" where
  "spec_Q1 series = spec_quartile series 1"

definition spec_Q3 :: "float64 list \<Rightarrow> float64" where
  "spec_Q3 series = spec_quartile series 3"




section \<open>Reading a run\<close>




text \<open>
  A step that leaves the dataset alone and only adds to the log and to the files; the
  path of the t-test results; a state in which nothing was written there.
\<close>

definition grows :: "state \<Rightarrow> state \<Rightarrow> bool" where
  "grows s s' =
     (df s' = df s \<and> set (files s) \<subseteq> set (files s') \<and> set (logged s) \<subseteq> set (logged s'))"

definition ttest_path :: "config \<Rightarrow> string" where
  "ttest_path cfg = report_path cfg @ ''ttest_effectsize_results.csv''"

definition no_ttest :: "config \<Rightarrow> state \<Rightarrow> bool" where
  "no_ttest cfg s = (ttest_path cfg \<notin> fst ` set (files s))"

definition keeps :: "config \<Rightarrow> state \<Rightarrow> state \<Rightarrow> bool" where
  "keeps cfg s s' = (grows s s' \<and> (no_ttest cfg s \<longrightarrow> no_ttest cfg s'))"

text \<open>
  A state with the same dataset and the same column lists; a name that is a column of a
  dataset; a categorical column that has a row in common with the target, so that its
  contingency table has data.
\<close>

definition same_table :: "state \<Rightarrow> state \<Rightarrow> bool" where
  "same_table s s' = (df s' = df s \<and> num_cols s' = num_cols s \<and> cat_cols s' = cat_cols s)"

definition has_column :: "dataframe \<Rightarrow> string \<Rightarrow> bool" where
  "has_column d k = (find (\<lambda>c. col_name c = k) d \<noteq> None)"

definition crosstab_has_data :: "dataframe \<Rightarrow> string \<Rightarrow> string \<Rightarrow> bool" where
  "crosstab_has_data d target k =
     (case getitem d k of
        Inl e \<Rightarrow> False
      | Inr c \<Rightarrow> (case getitem d target of
                    Inl e \<Rightarrow> False
                  | Inr t \<Rightarrow> \<not> crosstab_empty (col_values c) (col_values t)))"

section \<open>Example inputs\<close>


text \<open>A dataset with a column of each storage type.\<close>

definition typed_df :: dataframe where
  "typed_df =
     [\<lparr>col_name = ''age'', col_dtype = Int64, col_values = [Num (Finite 31)]\<rparr>,
      \<lparr>col_name = ''city'', col_dtype = Object, col_values = [Str ''Pune'']\<rparr>,
      \<lparr>col_name = ''active'', col_dtype = Boolean, col_values = [Bool True]\<rparr>,
      \<lparr>col_name = ''joined'', col_dtype = Datetime, col_values = [Str ''2024-01-05'']\<rparr>,
      \<lparr>col_name = ''score'', col_dtype = Float64, col_values = [Num (Finite 2)]\<rparr>]"

text \<open>
  A run with every flag set: an identifier column, three numeric features, one
  categorical feature and a numeric target with three distinct values.
\<close>

definition demo_target :: column where
  "demo_target =
     \<lparr>col_name = ''t'', col_dtype = Int64,
      col_values = [Num (Finite 0), Num (Finite 1), Num (Finite 2)]\<rparr>"

definition demo_df :: dataframe where
  "demo_df =
     [\<lparr>col_name = ''id'', col_dtype = Int64,
       col_values = [Num (Finite 1), Num (Finite 2), Num (Finite 3)]\<rparr>,
      \<lparr>col_name = ''a'', col_dtype = Float64,
       col_values = [Num (Finite 0), Num (Finite 1), Num (Finite 2)]\<rparr>,
      \<lparr>col_name = ''b'', col_dtype = Float64,
       col_values = [Num (Finite 2), Num (Finite 1), Num (Finite 0)]\<rparr>,
      \<lparr>col_name = ''c'', col_dtype = Float64,
       col_values = [Num (Finite 0), Num (Finite 1), Num (Finite 2)]\<rparr>,
      \<lparr>col_name = ''city'', col_dtype = Object,
       col_values = [Str ''x'', Str ''y'', Str ''x'']\<rparr>,
      demo_target]"

definition demo_cfg :: config where
  "demo_cfg =
     \<lparr>report_path = ''out/'', data_path = ''data.csv'', id_columns = Some [''id''],
      target_column = ''t'', outlier_detection = True, plots_distribution = True,
      plots_target_analysis = True, plots_correlation = True\<rparr>"

definition demo_env :: env where
  "demo_env =
     \<lparr>read_csv = (\<lambda>p. if p = ''data.csv'' then Inr demo_df else Inl (OSError p)),
      ttest_ind = (\<lambda>a b. Finite (1 / 2)),
      chi2_p = (\<lambda>a b. Finite (1 / 2)),
      sv_analyze = (\<lambda>d. None),
      sv_show_html = (\<lambda>d p. None)\<rparr>"

text \<open>The state of that run after the distribution plots, before the report, and at its end.\<close>

definition demo_plotted :: state where
  "demo_plotted =
     \<lparr>df = drop_columns [''id''] demo_df,
      num_cols = [''a'', ''b'', ''c'', ''t''],
      cat_cols = [''city''],
      logged = [(Info, Loading_dataset), (Info, Dataset_shape 3 6),
                (Info, ID_columns_removed), (Info, Duplicate_rows 0)],
      files = [(''out/missing_values.csv'', Missing_values_csv []),
               (''out/a_distribution.png'', Distribution_png ''a''),
               (''out/b_distribution.png'', Distribution_png ''b''),
               (''out/c_distribution.png'', Distribution_png ''c''),
               (''out/t_distribution.png'', Distribution_png ''t'')]\<rparr>"

definition demo_bars :: "(string \<times> float64) list" where
  "demo_bars = [(''a'', Finite 1), (''b'', Finite (- 1)), (''c'', Finite 1)]"

definition demo_analysed :: state where
  "demo_analysed =
     demo_plotted
       \<lparr>logged := logged demo_plotted @ [(Warning, Requires_binary_target)],
        files := files demo_plotted @
          [(''out/correlation.png'',
            Correlation_png
              [(''a'', [Finite 1, Finite (- 1), Finite 1, Finite 1]),
               (''b'', [Finite (- 1), Finite 1, Finite (- 1), Finite (- 1)]),
               (''c'', [Finite 1, Finite (- 1), Finite 1, Finite 1]),
               (''t'', [Finite 1, Finite (- 1), Finite 1, Finite 1])]),
           (''out/target_correlation.png'', Target_correlation_png ''t'' demo_bars),
           (''out/city_categorical.png'', Categorical_png ''city'' ''t'' (Finite (1 / 2))),
           (''out/chi2_results.csv'', Chi2_csv [(''city'', Finite (1 / 2))]),
           (''out/outlier_counts.csv'',
            Outlier_counts_csv [(''a'', 0), (''b'', 0), (''c'', 0), (''t'', 0)])]\<rparr>"

definition demo_final :: state where
  "demo_final =
     logger Info Pipeline_completed
       (save ''out/sweetviz_report.html'' Sweetviz_html demo_analysed)"



definition failing_env :: env where
  "failing_env = demo_env\<lparr>sv_analyze := (\<lambda>d. Some (RuntimeError ''report failed''))\<rparr>"




text \<open>A state whose target has the values 0 and 1 and one missing entry.\<close>

definition gappy_target :: column where
  "gappy_target =
     \<lparr>col_name = ''t'', col_dtype = Float64,
      col_values = [Num (Finite 0), Num (Finite 1), Num NaN, Num (Finite 0)]\<rparr>"

definition gappy_state :: state where
  "gappy_state =
     init\<lparr>df := [\<lparr>col_name = ''a'', col_dtype = Float64,
                   col_values = [Num (Finite 3), Num (Finite 4), Num (Finite 5), Num (Finite 6)]\<rparr>,
                  gappy_target],
          num_cols := [''a'', ''t'']\<rparr>"




section \<open>Properties of the float operations\<close>

lemma f_add_commute: "f_add a b = f_add b a"
  by (cases a; cases b; simp)

lemma f_add_NaN_right [simp]: "f_add x NaN = NaN"
  by (cases x) simp_all

lemma f_mul_NaN_right [simp]: "f_mul x NaN = NaN"
  by (cases x) simp_all

lemma f_div_NaN_right [simp]: "f_div x NaN = NaN"
  by (cases x) simp_all

lemma f_sub_antisym: "f_sub a b = f_neg (f_sub b a)"
  by (cases a; cases b; simp add: f_sub_def)

lemma f_div_neg_left: "f_div (f_neg a) b = f_neg (f_div a b)"
  by (cases a; cases b; simp)


section \<open>Properties of Cohen's d\<close>




lemmas cohens_d_unfold =
  cohens_d_def pooled_std_def np_std_def np_var_def np_mean_def f_sum_def f_sub_def
  f_square_def of_py_int_def Let_def

















lemma pooled_std_commute: "pooled_std a b = pooled_std b a"
  by (simp add: pooled_std_def Let_def f_add_commute add.commute)

text \<open>
  C7. Cohen's d is antisymmetric: swapping the two samples negates the result (and
  leaves an undefined result undefined).
\<close>

theorem cohens_d_antisymmetric: "cohens_d a b = f_neg (cohens_d b a)"
proof -
  have "f_sub (np_mean a) (np_mean b) = f_neg (f_sub (np_mean b) (np_mean a))"
    by (rule f_sub_antisym)
  then show ?thesis
    by (simp add: cohens_d_def Let_def f_div_neg_left pooled_std_commute [of a b])
qed

theorem cohens_d_antisymmetric_witness:
  "cohens_d [Finite 3, Finite 4, Finite 5] [Finite 0, Finite 1, Finite 2] = Finite 3 \<and>
   cohens_d [Finite 0, Finite 1, Finite 2] [Finite 3, Finite 4, Finite 5] = Finite (- 3)"
proof -
  have "cohens_d [Finite 3, Finite 4, Finite 5] [Finite 0, Finite 1, Finite 2] = Finite 3"
    by (simp add: cohens_d_unfold)
  then show ?thesis
    using cohens_d_antisymmetric [of "[Finite 0, Finite 1, Finite 2]" "[Finite 3, Finite 4, Finite 5]"]
    by simp
qed

section \<open>Properties of the outlier count\<close>

lemma floor_quarters: "nat \<lfloor>real m * (real k / 4)\<rfloor> = (k * m) div 4"
proof -
  have "real m * (real k / 4) = real (k * m) / real 4"
    by simp
  then have "\<lfloor>real m * (real k / 4)\<rfloor> = \<lfloor>real (k * m) / real 4\<rfloor>"
    by (rule arg_cong)
  also have "\<dots> = int ((k * m) div 4)"
    by (rule floor_divide_of_nat_eq)
  finally show ?thesis
    by simp
qed

lemma frac_quarters: "real m * (real k / 4) - real ((k * m) div 4) = real ((k * m) mod 4) / 4"
proof -
  have "real (k * m) / real 4 = real ((k * m) div 4) + real ((k * m) mod 4) / real 4"
    by (rule of_nat_of_nat_div_aux)
  moreover have "real m * (real k / 4) = real (k * m) / real 4"
    by simp
  ultimately show ?thesis
    by linarith
qed

lemma quantile_quarters: "quantile series (real k / 4) = spec_quartile series k"
  unfolding quantile_def spec_quartile_def Let_def floor_quarters frac_quarters
  by (simp add: mult.commute)

lemma quantile_q1: "quantile series (1 / 4) = spec_Q1 series"
  using quantile_quarters [of series 1] by (simp add: spec_Q1_def)

lemma quantile_q3: "quantile series (3 / 4) = spec_Q3 series"
  using quantile_quarters [of series 3] by (simp add: spec_Q3_def)





lemma f_lt_irrefl: "\<not> f_lt x x"
  by (cases x) simp_all














section \<open>Properties of the column classifier\<close>

lemma count_list_distinct: "distinct xs \<Longrightarrow> x \<in> set xs \<Longrightarrow> count_list xs x = 1"
  by (induction xs) auto

lemma classify_fst: "fst (classify_columns d) = map col_name (filter (\<lambda>c. is_number (col_dtype c)) d)"
  by (simp add: classify_columns_def select_dtypes_def columns_tolist_def)

lemma classify_snd: "snd (classify_columns d) = map col_name (filter (\<lambda>c. col_dtype c = Object) d)"
  by (simp add: classify_columns_def select_dtypes_def columns_tolist_def)

lemma name_in_selected:
  assumes "distinct (map col_name d)" and "c \<in> set d"
  shows "col_name c \<in> set (map col_name (filter P d)) \<longleftrightarrow> P c"
proof
  assume "col_name c \<in> set (map col_name (filter P d))"
  then obtain c' where c': "c' \<in> set d" "P c'" "col_name c' = col_name c"
    by auto
  from assms(1) have "inj_on col_name (set d)"
    by (simp add: distinct_map)
  with c' assms(2) have "c' = c"
    by (auto dest: inj_onD)
  with c' show "P c" by simp
next
  assume "P c"
  with assms(2) show "col_name c \<in> set (map col_name (filter P d))"
    by auto
qed

text \<open>
  C3. For a dataset whose column labels are distinct (as the CSV reader makes them),
  \<open>classify_columns\<close> returns two lists without repetition and without a common name:
  a column of numeric type is once in the numeric list and not in the categorical one, a
  column of object type is once in the categorical list and not in the numeric one, and
  a column of any other type is in neither.
\<close>

theorem classify_columns_partition:
  assumes "distinct (map col_name d)"
  shows "distinct (fst (classify_columns d)) \<and> distinct (snd (classify_columns d)) \<and>
         set (fst (classify_columns d)) \<inter> set (snd (classify_columns d)) = {} \<and>
         (\<forall>c \<in> set d.
            (is_number (col_dtype c) \<longrightarrow>
               count_list (fst (classify_columns d)) (col_name c) = 1 \<and>
               col_name c \<notin> set (snd (classify_columns d))) \<and>
            (col_dtype c = Object \<longrightarrow>
               count_list (snd (classify_columns d)) (col_name c) = 1 \<and>
               col_name c \<notin> set (fst (classify_columns d))) \<and>
            (\<not> is_number (col_dtype c) \<and> col_dtype c \<noteq> Object \<longrightarrow>
               col_name c \<notin> set (fst (classify_columns d)) \<and>
               col_name c \<notin> set (snd (classify_columns d))))"
proof -
  let ?nums = "fst (classify_columns d)" and ?cats = "snd (classify_columns d)"
  have dn: "distinct ?nums" and dc: "distinct ?cats"
    using assms by (simp_all add: classify_fst classify_snd distinct_map_filter)
  have inn: "col_name c \<in> set ?nums \<longleftrightarrow> is_number (col_dtype c)" if "c \<in> set d" for c
    unfolding classify_fst using name_in_selected [OF assms that] .
  have inc: "col_name c \<in> set ?cats \<longleftrightarrow> col_dtype c = Object" if "c \<in> set d" for c
    unfolding classify_snd using name_in_selected [OF assms that] .
  have disj: "set ?nums \<inter> set ?cats = {}"
  proof (rule ccontr)
    assume "set ?nums \<inter> set ?cats \<noteq> {}"
    then obtain k where k: "k \<in> set ?nums" "k \<in> set ?cats"
      by auto
    from k(1) obtain c where c: "c \<in> set d" "col_name c = k"
      by (auto simp add: classify_fst)
    from k c inn [of c] inc [of c] show False
      by auto
  qed
  have per: "(is_number (col_dtype c) \<longrightarrow>
               count_list ?nums (col_name c) = 1 \<and> col_name c \<notin> set ?cats) \<and>
            (col_dtype c = Object \<longrightarrow>
               count_list ?cats (col_name c) = 1 \<and> col_name c \<notin> set ?nums) \<and>
            (\<not> is_number (col_dtype c) \<and> col_dtype c \<noteq> Object \<longrightarrow>
               col_name c \<notin> set ?nums \<and> col_name c \<notin> set ?cats)" if "c \<in> set d" for c
    using inn [OF that] inc [OF that] dn dc
    by (auto simp add: count_list_distinct)
  from dn dc disj per show ?thesis
    by blast
qed

theorem classify_columns_partition_witness:
  "distinct (map col_name typed_df) \<and>
   classify_columns typed_df = ([''age'', ''score''], [''city'']) \<and>
   count_list (fst (classify_columns typed_df)) ''age'' = 1 \<and>
   count_list (snd (classify_columns typed_df)) ''city'' = 1 \<and>
   ''active'' \<notin> set (fst (classify_columns typed_df)) \<and>
   ''active'' \<notin> set (snd (classify_columns typed_df)) \<and>
   ''joined'' \<notin> set (fst (classify_columns typed_df)) \<and>
   ''joined'' \<notin> set (snd (classify_columns typed_df))"
  using classify_columns_partition [of typed_df]
  by (simp add: typed_df_def classify_columns_def select_dtypes_def columns_tolist_def)

section \<open>Properties of the pipeline\<close>

subsection \<open>Loops and sequences of steps\<close>

lemma for_each_invariant:
  assumes "\<And>x s s'. x \<in> set xs \<Longrightarrow> P s \<Longrightarrow> body x s = Inr s' \<Longrightarrow> P s'"
    and "P s" and "for_each body xs s = Inr s'"
  shows "P s'"
  using assms
proof (induction xs arbitrary: s)
  case Nil
  then show ?case by simp
next
  case (Cons x xs)
  from Cons.prems(3) obtain s1 where s1: "body x s = Inr s1" "for_each body xs s1 = Inr s'"
    by (auto split: sum.splits)
  from Cons.prems(1) [of x s s1] Cons.prems(2) s1(1) have "P s1"
    by simp
  moreover have "P u'" if "y \<in> set xs" "P u" "body y u = Inr u'" for y u u'
    using Cons.prems(1) [of y u u'] that by simp
  ultimately show ?case
    using s1(2) Cons.IH by blast
qed

lemma run_steps_append:
  "run_steps (fs @ gs) s = (case run_steps fs s of Inl e \<Rightarrow> Inl e | Inr s1 \<Rightarrow> run_steps gs s1)"
  unfolding run_steps_def
  by (induction fs arbitrary: s) (simp_all split: sum.splits)

lemma run_steps_Nil [simp]: "run_steps [] s = Inr s"
  by (simp add: run_steps_def)

lemma run_steps_Cons:
  "run_steps (f # fs) s = (case f s of Inl e \<Rightarrow> Inl e | Inr s1 \<Rightarrow> run_steps fs s1)"
  unfolding run_steps_def by simp

lemma run_steps_invariant:
  assumes "\<And>f s s'. f \<in> set fs \<Longrightarrow> P s \<Longrightarrow> f s = Inr s' \<Longrightarrow> P s'"
    and "P s" and "run_steps fs s = Inr s'"
  shows "P s'"
  using assms unfolding run_steps_def by (rule for_each_invariant)

lemma steps_split: "steps cfg ev = take n (steps cfg ev) @ drop n (steps cfg ev)"
  by simp

lemma run_split:
  "run_steps (steps cfg ev) s =
     (case run_steps (take n (steps cfg ev)) s of
        Inl e \<Rightarrow> Inl e
      | Inr s1 \<Rightarrow> run_steps (drop n (steps cfg ev)) s1)"
  using run_steps_append [of "take n (steps cfg ev)" "drop n (steps cfg ev)" s] by simp

subsection \<open>What each step leaves unchanged\<close>

lemma grows_refl [simp]: "grows s s"
  by (simp add: grows_def)

lemma grows_trans: "grows s s1 \<Longrightarrow> grows s1 s2 \<Longrightarrow> grows s s2"
  by (auto simp add: grows_def)

lemma grows_save [simp]: "grows s (save p a s)"
  by (auto simp add: grows_def save_def)

lemma grows_logger [simp]: "grows s (logger l m s)"
  by (auto simp add: grows_def logger_def)

lemma no_ttest_logger [simp]: "no_ttest cfg (logger l m s) = no_ttest cfg s"
  by (simp add: no_ttest_def logger_def)

lemma no_ttest_save: "p \<noteq> ttest_path cfg \<Longrightarrow> no_ttest cfg (save p a s) = no_ttest cfg s"
  by (auto simp add: no_ttest_def save_def)

lemma png_not_ttest:
  "report_path cfg @ col @ ''_distribution.png'' \<noteq> ttest_path cfg"
  "report_path cfg @ col @ ''_vs_target.png'' \<noteq> ttest_path cfg"
  "report_path cfg @ col @ ''_categorical.png'' \<noteq> ttest_path cfg"
  by (auto simp add: ttest_path_def dest: arg_cong [where f = last])

lemma fixed_not_ttest:
  "report_path cfg @ ''missing_values.csv'' \<noteq> ttest_path cfg"
  "report_path cfg @ ''correlation.png'' \<noteq> ttest_path cfg"
  "report_path cfg @ ''target_correlation.png'' \<noteq> ttest_path cfg"
  "report_path cfg @ ''chi2_results.csv'' \<noteq> ttest_path cfg"
  "report_path cfg @ ''outlier_counts.csv'' \<noteq> ttest_path cfg"
  "report_path cfg @ ''sweetviz_report.html'' \<noteq> ttest_path cfg"
  by (simp_all add: ttest_path_def)

lemma keeps_refl [simp]: "keeps cfg s s"
  by (simp add: keeps_def)

lemma keeps_trans: "keeps cfg s s1 \<Longrightarrow> keeps cfg s1 s2 \<Longrightarrow> keeps cfg s s2"
  by (auto simp add: keeps_def intro: grows_trans)

lemma keeps_logger [simp]: "keeps cfg s (logger l m s)"
  by (simp add: keeps_def)

lemma keeps_save: "p \<noteq> ttest_path cfg \<Longrightarrow> keeps cfg s (save p a s)"
  by (simp add: keeps_def no_ttest_save)

lemma for_each_keeps:
  assumes "\<And>x s s'. body x s = Inr s' \<Longrightarrow> keeps cfg s s'"
    and "for_each body xs s = Inr s'"
  shows "keeps cfg s s'"
proof -
  have "keeps cfg s s'"
    using assms(2)
    by (rule for_each_invariant [where P = "keeps cfg s", rotated 2])
       (auto intro: keeps_trans [OF _ assms(1)])
  then show ?thesis .
qed

lemma for_each_keeps_snd:
  assumes "\<And>x a s a' s'. body x (a, s) = Inr (a', s') \<Longrightarrow> keeps cfg s s'"
    and "for_each body xs (a, s) = Inr (a', s')"
  shows "keeps cfg s s'"
proof -
  have "keeps cfg s (snd (a', s'))"
    using assms(2)
    by (rule for_each_invariant [where P = "\<lambda>p. keeps cfg s (snd p)", rotated 2])
       (auto intro: keeps_trans [OF _ assms(1)])
  then show ?thesis by simp
qed

lemma missing_value_analysis_keeps:
  "missing_value_analysis cfg s = Inr s' \<Longrightarrow> keeps cfg s s'"
  by (auto simp add: missing_value_analysis_def Let_def keeps_save fixed_not_ttest)

lemma duplicate_analysis_keeps: "duplicate_analysis s = Inr s' \<Longrightarrow> keeps cfg s s'"
  by (auto simp add: duplicate_analysis_def)

lemma classify_columns_method_keeps: "classify_columns_method s = Inr s' \<Longrightarrow> keeps cfg s s'"
  by (auto simp add: classify_columns_method_def keeps_def grows_def no_ttest_def split: prod.splits)

lemma distribution_plots_keeps: "distribution_plots cfg s = Inr s' \<Longrightarrow> keeps cfg s s'"
  unfolding distribution_plots_def
  by (auto split: if_splits sum.splits elim!: for_each_keeps [rotated] simp add: keeps_save png_not_ttest)

lemma correlation_analysis_keeps: "correlation_analysis cfg s = Inr s' \<Longrightarrow> keeps cfg s s'"
  by (auto simp add: correlation_analysis_def keeps_save fixed_not_ttest split: if_splits sum.splits)

lemma feature_target_correlation_keeps:
  "feature_target_correlation cfg s = Inr s' \<Longrightarrow> keeps cfg s s'"
  by (auto simp add: feature_target_correlation_def Let_def keeps_save fixed_not_ttest split: sum.splits)

lemma categorical_body_keeps:
  "categorical_body cfg ev col (a, s) = Inr (a', s') \<Longrightarrow> keeps cfg s s'"
  by (auto simp add: categorical_body_def Let_def keeps_save png_not_ttest split: sum.splits if_splits)

lemma categorical_statistical_tests_keeps:
  assumes "categorical_statistical_tests cfg ev s = Inr s'"
  shows "keeps cfg s s'"
proof -
  from assms obtain results s1 where
    loop: "for_each (categorical_body cfg ev) (cat_cols s) ([], s) = Inr (results, s1)"
    and s': "s' = save (report_path cfg @ ''chi2_results.csv'') (Chi2_csv results) s1"
    by (auto simp add: categorical_statistical_tests_def split: sum.splits prod.splits)
  from loop have "keeps cfg s s1"
    by (rule for_each_keeps_snd [rotated]) (rule categorical_body_keeps)
  then show ?thesis
    unfolding s' by (rule keeps_trans) (simp add: keeps_save fixed_not_ttest)
qed

lemma outlier_body_keeps: "outlier_body col (a, s) = Inr (a', s') \<Longrightarrow> keeps cfg s s'"
  by (auto simp add: outlier_body_def split: sum.splits)

lemma outlier_analysis_keeps:
  assumes "outlier_analysis cfg s = Inr s'"
  shows "keeps cfg s s'"
proof (cases "outlier_detection cfg")
  case False
  with assms show ?thesis by (simp add: outlier_analysis_def)
next
  case True
  with assms obtain results s1 where
    loop: "for_each outlier_body (num_cols s) ([], s) = Inr (results, s1)"
    and s': "s' = save (report_path cfg @ ''outlier_counts.csv'') (Outlier_counts_csv results) s1"
    by (auto simp add: outlier_analysis_def split: sum.splits prod.splits)
  from loop have "keeps cfg s s1"
    by (rule for_each_keeps_snd [rotated]) (rule outlier_body_keeps)
  then show ?thesis
    unfolding s' by (rule keeps_trans) (simp add: keeps_save fixed_not_ttest)
qed

lemma generate_sweetviz_keeps: "generate_sweetviz cfg ev s = Inr s' \<Longrightarrow> keeps cfg s s'"
  by (auto simp add: generate_sweetviz_def keeps_save fixed_not_ttest split: option.splits)

lemma target_analysis_body_grows:
  "target_analysis_body cfg ev t g1 g2 col (a, s) = Inr (a', s') \<Longrightarrow> grows s s'"
  by (auto simp add: target_analysis_body_def Let_def split: sum.splits if_splits)

lemma for_each_grows_snd:
  assumes "\<And>x a s a' s'. body x (a, s) = Inr (a', s') \<Longrightarrow> grows s s'"
    and "for_each body xs (a, s) = Inr (a', s')"
  shows "grows s s'"
proof -
  have "grows s (snd (a', s'))"
    using assms(2)
    by (rule for_each_invariant [where P = "\<lambda>p. grows s (snd p)", rotated 2])
       (auto intro: grows_trans [OF _ assms(1)])
  then show ?thesis by simp
qed

lemma target_analysis_grows:
  assumes "target_analysis cfg ev s = Inr s'"
  shows "grows s s'"
proof (cases "plots_target_analysis cfg")
  case False
  with assms show ?thesis by (simp add: target_analysis_def)
next
  case True
  from assms True obtain t where t: "getitem (df s) (target_column cfg) = Inr t"
    by (auto simp add: target_analysis_def split: sum.splits)
  show ?thesis
  proof (cases "length (unique (col_values t)) = 2")
    case False
    with assms True t show ?thesis by (auto simp add: target_analysis_def Let_def)
  next
    case two: True
    with assms True t obtain stats s1 where
      loop: "for_each (target_analysis_body cfg ev t (unique (col_values t) ! 0) (unique (col_values t) ! 1))
               (num_cols s) ([], s) = Inr (stats, s1)"
      and s': "s' = save (ttest_path cfg) (Ttest_effectsize_csv stats) s1"
      by (auto simp add: target_analysis_def Let_def ttest_path_def split: sum.splits prod.splits)
    from loop have "grows s s1"
      by (rule for_each_grows_snd [rotated]) (rule target_analysis_body_grows)
    then show ?thesis
      unfolding s' by (rule grows_trans) simp
  qed
qed

lemma later_steps:
  "set (drop 2 (steps cfg ev)) =
     {missing_value_analysis cfg, duplicate_analysis, classify_columns_method,
      distribution_plots cfg, target_analysis cfg ev, correlation_analysis cfg,
      feature_target_correlation cfg, categorical_statistical_tests cfg ev,
      outlier_analysis cfg, generate_sweetviz cfg ev}"
  by (simp add: steps_def)

lemma later_step_grows:
  assumes "f \<in> set (drop 2 (steps cfg ev))" and "f s = Inr s'"
  shows "grows s s'"
proof -
  have k: "keeps cfg s s' \<Longrightarrow> grows s s'"
    by (simp add: keeps_def)
  from assms show ?thesis
    unfolding later_steps
    by (auto intro: k missing_value_analysis_keeps duplicate_analysis_keeps
        classify_columns_method_keeps distribution_plots_keeps target_analysis_grows
        correlation_analysis_keeps feature_target_correlation_keeps
        categorical_statistical_tests_keeps outlier_analysis_keeps generate_sweetviz_keeps)
qed

lemma later_steps_grow:
  assumes "set fs \<subseteq> set (drop 2 (steps cfg ev))" and "run_steps fs s = Inr s'"
  shows "grows s s'"
proof -
  have "grows s s'"
    using _ _ assms(2)
  proof (rule run_steps_invariant [where P = "grows s"])
    fix f u u'
    assume "f \<in> set fs" "grows s u" "f u = Inr u'"
    with assms(1) show "grows s u'"
      by (blast intro: grows_trans later_step_grows)
  qed simp
  then show ?thesis .
qed

lemma first_steps:
  assumes "run_steps (take 2 (steps cfg ev)) init = Inr s"
  shows "\<exists>d. read_csv ev (data_path cfg) = Inr d \<and>
             df s = drop_columns (case id_columns cfg of None \<Rightarrow> [] | Some l \<Rightarrow> l) d \<and>
             files s = []"
  using assms
  by (auto simp add: steps_def run_steps_Cons load_data_def drop_id_columns_def Let_def
      logger_def init_def split: sum.splits)





subsection \<open>When the steps return\<close>

lemma same_table_refl [simp]: "same_table s s"
  by (simp add: same_table_def)

lemma same_table_save [simp]: "same_table s (save p a s)"
  by (simp add: same_table_def save_def)

lemma same_table_logger [simp]: "same_table s (logger l m s)"
  by (simp add: same_table_def logger_def)

lemma same_table_trans: "same_table s s1 \<Longrightarrow> same_table s1 s2 \<Longrightarrow> same_table s s2"
  by (simp add: same_table_def)

lemma has_column_getitem: "has_column d k \<Longrightarrow> \<exists>c. getitem d k = Inr c"
  by (auto simp add: has_column_def getitem_def)

lemma has_column_iff: "has_column d k \<longleftrightarrow> k \<in> col_name ` set d"
  by (auto simp add: has_column_def find_None_iff)

lemma for_each_returns:
  assumes "\<And>x s. x \<in> set xs \<Longrightarrow> I s \<Longrightarrow> \<exists>s'. body x s = Inr s' \<and> I s'"
    and "I s"
  shows "\<exists>s'. for_each body xs s = Inr s' \<and> I s'"
  using assms
proof (induction xs arbitrary: s)
  case Nil
  then show ?case by simp
next
  case (Cons x xs)
  from Cons.prems(1) [of x s] Cons.prems(2) obtain s1 where s1: "body x s = Inr s1" "I s1"
    by auto
  have "\<exists>s'. body y u = Inr s' \<and> I s'" if "y \<in> set xs" "I u" for y u
    using Cons.prems(1) [of y u] that by simp
  from Cons.IH [OF this s1(2)] obtain s' where "for_each body xs s1 = Inr s'" "I s'"
    by blast
  with s1(1) show ?case by simp
qed

lemma classified_columns_exist:
  "k \<in> set (fst (classify_columns d)) \<Longrightarrow> has_column d k"
  "k \<in> set (snd (classify_columns d)) \<Longrightarrow> has_column d k"
  by (auto simp add: has_column_iff classify_fst classify_snd)

lemma distribution_plots_returns:
  assumes "list_all (has_column (df s)) (num_cols s)"
  shows "\<exists>s'. distribution_plots cfg s = Inr s' \<and> same_table s s'"
proof (cases "plots_distribution cfg")
  case False
  then show ?thesis by (simp add: distribution_plots_def)
next
  case True
  have "\<exists>s'. for_each
             (\<lambda>col s. case getitem (df s) col of
                         Inl e \<Rightarrow> Inl e
                       | Inr c \<Rightarrow>
                           Inr (save (report_path cfg @ col @ ''_distribution.png'')
                                     (Distribution_png col) s))
             (num_cols s) s = Inr s' \<and> same_table s s'"
  proof (rule for_each_returns)
    fix x u
    assume "x \<in> set (num_cols s)" "same_table s u"
    with assms have "has_column (df u) x"
      by (simp add: list_all_iff same_table_def)
    then obtain c where "getitem (df u) x = Inr c"
      by (auto dest: has_column_getitem)
    with \<open>same_table s u\<close>
    show "\<exists>s'. (case getitem (df u) x of
                         Inl e \<Rightarrow> Inl e
                       | Inr c \<Rightarrow>
                           Inr (save (report_path cfg @ x @ ''_distribution.png'')
                                     (Distribution_png x) u)) = Inr s' \<and> same_table s s'"
      by (simp add: same_table_def save_def)
  qed simp
  with True show ?thesis by (simp add: distribution_plots_def)
qed

lemma getitems_returns:
  "list_all (has_column d) ks \<Longrightarrow> \<exists>cs. getitems d ks = Inr cs"
  by (induction ks) (auto dest: has_column_getitem)

lemma correlation_analysis_returns:
  assumes "list_all (has_column (df s)) (num_cols s)"
  shows "\<exists>s'. correlation_analysis cfg s = Inr s' \<and> same_table s s'"
  using getitems_returns [OF assms]
  by (auto simp add: correlation_analysis_def)

lemma feature_target_correlation_returns:
  assumes "has_column (select_dtypes numeric_only (df s)) (target_column cfg)"
  shows "\<exists>s'. feature_target_correlation cfg s = Inr s' \<and> same_table s s'"
  using assms
  by (auto simp add: feature_target_correlation_def target_corr_def has_column_def Let_def)

lemma categorical_statistical_tests_returns:
  assumes "list_all (crosstab_has_data (df s) (target_column cfg)) (cat_cols s)"
  shows "\<exists>s'. categorical_statistical_tests cfg ev s = Inr s' \<and> same_table s s'"
proof -
  have "\<exists>p. for_each (categorical_body cfg ev) (cat_cols s) ([], s) = Inr p \<and> same_table s (snd p)"
  proof (rule for_each_returns)
    fix x and u :: "(string \<times> float64) list \<times> state"
    assume x: "x \<in> set (cat_cols s)" and u: "same_table s (snd u)"
    from x assms have "crosstab_has_data (df s) (target_column cfg) x"
      by (simp add: list_all_iff)
    with u show "\<exists>p. categorical_body cfg ev x u = Inr p \<and> same_table s (snd p)"
      by (cases u)
         (auto simp add: categorical_body_def crosstab_has_data_def same_table_def Let_def save_def
          split: sum.splits)
  qed simp
  then obtain results s1 where
    "for_each (categorical_body cfg ev) (cat_cols s) ([], s) = Inr (results, s1)" "same_table s s1"
    by auto
  then show ?thesis
    by (simp add: categorical_statistical_tests_def same_table_def save_def)
qed

lemma outlier_analysis_returns:
  assumes "list_all (has_column (df s)) (num_cols s)"
  shows "\<exists>s'. outlier_analysis cfg s = Inr s' \<and> same_table s s'"
proof (cases "outlier_detection cfg")
  case False
  then show ?thesis by (simp add: outlier_analysis_def)
next
  case True
  have "\<exists>p. for_each outlier_body (num_cols s) ([], s) = Inr p \<and> same_table s (snd p)"
  proof (rule for_each_returns)
    fix x and u :: "(string \<times> nat) list \<times> state"
    assume x: "x \<in> set (num_cols s)" and u: "same_table s (snd u)"
    from x assms have "has_column (df s) x"
      by (simp add: list_all_iff)
    then obtain c where "getitem (df s) x = Inr c"
      by (auto dest: has_column_getitem)
    with u show "\<exists>p. outlier_body x u = Inr p \<and> same_table s (snd p)"
      by (cases u) (simp add: outlier_body_def same_table_def)
  qed simp
  then obtain results s1 where
    "for_each outlier_body (num_cols s) ([], s) = Inr (results, s1)" "same_table s s1"
    by auto
  with True show ?thesis
    by (simp add: outlier_analysis_def same_table_def save_def)
qed

lemma generate_sweetviz_returns:
  "\<exists>s'. generate_sweetviz cfg ev s = Inr s' \<and> same_table s s'"
  by (simp add: generate_sweetviz_def split: option.splits)

lemma target_analysis_returns:
  assumes "has_column (df s) (target_column cfg)"
    and "list_all (has_column (df s)) (num_cols s)"
  shows "\<exists>s'. target_analysis cfg ev s = Inr s' \<and> same_table s s'"
proof (cases "plots_target_analysis cfg")
  case False
  then show ?thesis by (simp add: target_analysis_def)
next
  case True
  from assms(1) obtain t where t: "getitem (df s) (target_column cfg) = Inr t"
    by (auto dest: has_column_getitem)
  show ?thesis
  proof (cases "length (unique (col_values t)) = 2")
    case False
    with True t show ?thesis by (simp add: target_analysis_def Let_def)
  next
    case two: True
    let ?body = "target_analysis_body cfg ev t (unique (col_values t) ! 0) (unique (col_values t) ! 1)"
    have "\<exists>p. for_each ?body (num_cols s) ([], s) = Inr p \<and> same_table s (snd p)"
    proof (rule for_each_returns)
      fix x and u :: "(string \<times> float64 \<times> float64) list \<times> state"
      assume x: "x \<in> set (num_cols s)" and u: "same_table s (snd u)"
      from x assms(2) have "has_column (df s) x"
        by (simp add: list_all_iff)
      then obtain c where "getitem (df s) x = Inr c"
        by (auto dest: has_column_getitem)
      with u show "\<exists>p. ?body x u = Inr p \<and> same_table s (snd p)"
        by (cases u) (simp add: target_analysis_body_def same_table_def Let_def save_def)
    qed simp
    then obtain stats s1 where
      "for_each ?body (num_cols s) ([], s) = Inr (stats, s1)" "same_table s s1"
      by auto
    with True t two show ?thesis
      by (simp add: target_analysis_def Let_def same_table_def save_def)
  qed
qed

lemma has_column_selected: "has_column (select_dtypes incl d) k \<Longrightarrow> has_column d k"
  by (auto simp add: has_column_iff select_dtypes_def)

lemma tail_returns:
  assumes n: "list_all (has_column (df s)) (num_cols s)"
    and t: "has_column (select_dtypes numeric_only (df s)) (target_column cfg)"
    and c: "list_all (crosstab_has_data (df s) (target_column cfg)) (cat_cols s)"
  shows "\<exists>s'. run_steps (drop 7 (steps cfg ev)) s = Inr s' \<and> same_table s s'"
proof -
  from correlation_analysis_returns [OF n] obtain s1
    where s1: "correlation_analysis cfg s = Inr s1" "same_table s s1"
    by blast
  from t s1(2) have "has_column (select_dtypes numeric_only (df s1)) (target_column cfg)"
    by (simp add: same_table_def)
  from feature_target_correlation_returns [OF this] obtain s2
    where s2: "feature_target_correlation cfg s1 = Inr s2" "same_table s1 s2"
    by blast
  from s1(2) s2(2) have t2: "same_table s s2"
    by (rule same_table_trans)
  with c have "list_all (crosstab_has_data (df s2) (target_column cfg)) (cat_cols s2)"
    by (simp add: same_table_def)
  from categorical_statistical_tests_returns [OF this] obtain s3
    where s3: "categorical_statistical_tests cfg ev s2 = Inr s3" "same_table s2 s3"
    by blast
  from t2 s3(2) have t3: "same_table s s3"
    by (rule same_table_trans)
  with n have "list_all (has_column (df s3)) (num_cols s3)"
    by (simp add: same_table_def)
  from outlier_analysis_returns [OF this] obtain s4
    where s4: "outlier_analysis cfg s3 = Inr s4" "same_table s3 s4"
    by blast
  from t3 s4(2) have t4: "same_table s s4"
    by (rule same_table_trans)
  from generate_sweetviz_returns obtain s5
    where s5: "generate_sweetviz cfg ev s4 = Inr s5" "same_table s4 s5"
    by blast
  from t4 s5(2) have "same_table s s5"
    by (rule same_table_trans)
  moreover from s1(1) s2(1) s3(1) s4(1) s5(1)
  have "run_steps (drop 7 (steps cfg ev)) s = Inr s5"
    by (simp add: steps_def run_steps_Cons)
  ultimately show ?thesis
    by blast
qed

lemma first_five:
  assumes "read_csv ev (data_path cfg) = Inr d"
  shows "\<exists>s. run_steps (take 5 (steps cfg ev)) init = Inr s \<and>
             df s = drop_columns (case id_columns cfg of None \<Rightarrow> [] | Some l \<Rightarrow> l) d \<and>
             num_cols s = fst (classify_columns (df s)) \<and>
             cat_cols s = snd (classify_columns (df s))"
  using assms
  by (simp add: steps_def run_steps_Cons load_data_def drop_id_columns_def
      missing_value_analysis_def duplicate_analysis_def classify_columns_method_def
      Let_def logger_def save_def init_def split: prod.splits)


lemma classified_has_columns:
  assumes "num_cols s = fst (classify_columns (df s))"
  shows "list_all (has_column (df s)) (num_cols s)"
  using assms by (simp add: list_all_iff classified_columns_exist)


subsection \<open>The example runs\<close>

lemmas pipeline_unfold =
  run_def run_steps_def steps_def init_def load_data_def logger_def save_def
  drop_id_columns_def drop_columns_def missing_value_analysis_def duplicate_analysis_def
  classify_columns_method_def distribution_plots_def target_analysis_def
  target_analysis_body_def group_of_def
  correlation_analysis_def corr_def feature_target_correlation_def target_corr_def
  categorical_statistical_tests_def categorical_body_def crosstab_empty_def
  outlier_analysis_def outlier_body_def generate_sweetviz_def nrows_def Let_def
  classify_columns_def select_dtypes_def columns_tolist_def duplicated_sum_def isnull_mean_def
  isnull_def f_gt_def getitem_def unique_def as_floats_def
  pearson_def np_mean_def f_sum_def f_sub_def f_square_def
  detect_outliers_def quantile_q1 quantile_q3 spec_Q1_def spec_Q3_def spec_quartile_def
  f_sort_def dropna_def f_le_def

lemmas demo_unfold =
  demo_cfg_def demo_env_def demo_df_def demo_target_def demo_plotted_def demo_analysed_def
  demo_final_def demo_bars_def


lemma demo_run: "run demo_cfg demo_env = Inr demo_final"
  by (simp add: pipeline_unfold demo_unfold)

lemma demo_before_report:
  "run_steps (butlast (steps demo_cfg failing_env)) init = Inr demo_analysed"
  by (simp add: pipeline_unfold demo_unfold failing_env_def)

subsection \<open>A run that completes\<close>

text \<open>
  When the CSV reader returns a dataset in which, after the drop of the identifier
  columns, the target is a numeric column and every categorical column has a row in
  common with it, \<open>run\<close> returns, whatever the flags and the report generator do.
\<close>

theorem run_returns:
  assumes "read_csv ev (data_path cfg) = Inr d"
    and "d' = drop_columns (case id_columns cfg of None \<Rightarrow> [] | Some l \<Rightarrow> l) d"
    and "has_column (select_dtypes numeric_only d') (target_column cfg)"
    and "list_all (crosstab_has_data d' (target_column cfg)) (snd (classify_columns d'))"
  shows "\<exists>s'. run cfg ev = Inr s' \<and> df s' = d'"
proof -
  from first_five [OF assms(1)] assms(2) obtain s5
    where five: "run_steps (take 5 (steps cfg ev)) init = Inr s5"
      and d5: "df s5 = d'"
      and n5: "num_cols s5 = fst (classify_columns (df s5))"
      and c5: "cat_cols s5 = snd (classify_columns (df s5))"
    by blast
  from n5 have h5: "list_all (has_column (df s5)) (num_cols s5)"
    by (rule classified_has_columns)
  from distribution_plots_returns [OF h5] obtain s6
    where s6: "distribution_plots cfg s5 = Inr s6" "same_table s5 s6"
    by blast
  from assms(3) d5 s6(2) have tc: "has_column (select_dtypes numeric_only (df s6)) (target_column cfg)"
    by (simp add: same_table_def)
  then have t6: "has_column (df s6) (target_column cfg)"
    by (rule has_column_selected)
  from h5 s6(2) have h6: "list_all (has_column (df s6)) (num_cols s6)"
    by (simp add: same_table_def)
  from target_analysis_returns [OF t6 h6] obtain s7
    where s7: "target_analysis cfg ev s6 = Inr s7" "same_table s6 s7"
    by blast
  from s6(2) s7(2) have t57: "same_table s5 s7"
    by (rule same_table_trans)
  have "\<exists>s'. run_steps (drop 7 (steps cfg ev)) s7 = Inr s' \<and> same_table s7 s'"
  proof (rule tail_returns)
    show "list_all (has_column (df s7)) (num_cols s7)"
      using h5 t57 by (simp add: same_table_def)
    show "has_column (select_dtypes numeric_only (df s7)) (target_column cfg)"
      using assms(3) d5 t57 by (simp add: same_table_def)
    show "list_all (crosstab_has_data (df s7) (target_column cfg)) (cat_cols s7)"
      using assms(4) d5 c5 t57 by (simp add: same_table_def)
  qed
  then obtain s12 where s12: "run_steps (drop 7 (steps cfg ev)) s7 = Inr s12" "same_table s7 s12"
    by blast
  have "steps cfg ev = take 5 (steps cfg ev) @ distribution_plots cfg # target_analysis cfg ev #
      drop 7 (steps cfg ev)"
    by (simp add: steps_def)
  then have "run_steps (steps cfg ev) init =
      run_steps (take 5 (steps cfg ev) @ distribution_plots cfg # target_analysis cfg ev #
        drop 7 (steps cfg ev)) init"
    by (rule arg_cong)
  with five s6(1) s7(1) s12(1) have "run_steps (steps cfg ev) init = Inr s12"
    by (simp add: run_steps_append run_steps_Cons)
  then have "run cfg ev = Inr (logger Info Pipeline_completed s12)"
    by (simp add: run_def)
  moreover from t57 s12(2) d5 have "df (logger Info Pipeline_completed s12) = d'"
    by (simp add: same_table_def logger_def)
  ultimately show ?thesis
    by blast
qed

theorem run_returns_witness:
  "read_csv demo_env (data_path demo_cfg) = Inr demo_df \<and>
   has_column (select_dtypes numeric_only (drop_columns [''id''] demo_df)) (target_column demo_cfg) \<and>
   list_all (crosstab_has_data (drop_columns [''id''] demo_df) (target_column demo_cfg))
     (snd (classify_columns (drop_columns [''id''] demo_df))) \<and>
   run demo_cfg demo_env = Inr demo_final \<and>
   df demo_final = drop_columns [''id''] demo_df"
proof -
  have r: "read_csv demo_env (data_path demo_cfg) = Inr demo_df"
    by (simp add: demo_env_def demo_cfg_def)
  have d: "drop_columns [''id''] demo_df =
      drop_columns (case id_columns demo_cfg of None \<Rightarrow> [] | Some l \<Rightarrow> l) demo_df"
    by (simp add: demo_cfg_def)
  have t: "has_column (select_dtypes numeric_only (drop_columns [''id''] demo_df))
      (target_column demo_cfg)"
    by (simp add: has_column_def select_dtypes_def drop_columns_def demo_unfold)
  have c: "list_all (crosstab_has_data (drop_columns [''id''] demo_df) (target_column demo_cfg))
     (snd (classify_columns (drop_columns [''id''] demo_df)))"
    by (simp add: crosstab_has_data_def crosstab_empty_def isnull_def getitem_def
        classify_columns_def select_dtypes_def columns_tolist_def drop_columns_def demo_unfold)
  from run_returns [OF r d t c] demo_run r t c show ?thesis
    by simp
qed

subsection \<open>The dataset after the identifier columns are dropped\<close>

text \<open>
  C9. Every step of the run after the drop of the identifier columns returns the
  dataset it was given, and at the end of a run the dataset is the loaded one without
  the identifier columns.
\<close>

theorem dataset_changed_only_by_drop:
  "(\<forall>f \<in> set (drop 2 (steps cfg ev)). \<forall>s s'. f s = Inr s' \<longrightarrow> df s' = df s) \<and>
   (run cfg ev = Inr s' \<longrightarrow>
      (\<exists>d. read_csv ev (data_path cfg) = Inr d \<and>
           df s' = drop_columns (case id_columns cfg of None \<Rightarrow> [] | Some l \<Rightarrow> l) d))"
proof (intro conjI ballI allI impI)
  fix f s s'
  assume "f \<in> set (drop 2 (steps cfg ev))" "f s = Inr s'"
  then have "grows s s'"
    by (rule later_step_grows)
  then show "df s' = df s"
    by (simp add: grows_def)
next
  assume "run cfg ev = Inr s'"
  then obtain s12 where all: "run_steps (steps cfg ev) init = Inr s12"
    and s': "s' = logger Info Pipeline_completed s12"
    by (auto simp add: run_def split: sum.splits)
  from all obtain s2 where two: "run_steps (take 2 (steps cfg ev)) init = Inr s2"
    and rest: "run_steps (drop 2 (steps cfg ev)) s2 = Inr s12"
    by (auto simp add: run_split [of cfg ev init 2] split: sum.splits)
  from rest have "grows s2 s12"
    by (rule later_steps_grow [OF subset_refl])
  then have "df s' = df s2"
    by (simp add: s' grows_def logger_def)
  with first_steps [OF two] show "\<exists>d. read_csv ev (data_path cfg) = Inr d \<and>
           df s' = drop_columns (case id_columns cfg of None \<Rightarrow> [] | Some l \<Rightarrow> l) d"
    by auto
qed

theorem dataset_changed_only_by_drop_witness:
  "generate_sweetviz demo_cfg demo_env \<in> set (drop 2 (steps demo_cfg demo_env)) \<and>
   generate_sweetviz demo_cfg demo_env demo_analysed =
     Inr (save ''out/sweetviz_report.html'' Sweetviz_html demo_analysed) \<and>
   df (save ''out/sweetviz_report.html'' Sweetviz_html demo_analysed) = df demo_analysed \<and>
   run demo_cfg demo_env = Inr demo_final \<and>
   read_csv demo_env (data_path demo_cfg) = Inr demo_df \<and>
   df demo_final = drop_columns [''id''] demo_df"
proof -
  have m: "generate_sweetviz demo_cfg demo_env \<in> set (drop 2 (steps demo_cfg demo_env))"
    by (simp add: steps_def)
  have g: "generate_sweetviz demo_cfg demo_env demo_analysed =
      Inr (save ''out/sweetviz_report.html'' Sweetviz_html demo_analysed)"
    by (simp add: generate_sweetviz_def demo_env_def demo_cfg_def)
  have r: "read_csv demo_env (data_path demo_cfg) = Inr demo_df"
    by (simp add: demo_env_def demo_cfg_def)
  have i: "id_columns demo_cfg = Some [''id'']"
    by (simp add: demo_cfg_def)
  from dataset_changed_only_by_drop [of demo_cfg demo_env demo_final] m g demo_run r i
  show ?thesis
    by auto
qed

subsection \<open>The report generator\<close>

text \<open>
  C8. \<open>generate_sweetviz\<close> always returns: an exception of either call of the report
  generator is logged as an error and not raised again, and once the eleven steps
  before it have completed, the run completes.
\<close>

theorem sweetviz_failure_never_aborts:
  "(\<exists>s'. generate_sweetviz cfg ev s = Inr s') \<and>
   (sv_analyze ev (df s) = Some e \<longrightarrow>
      generate_sweetviz cfg ev s = Inr (logger Error (Sweetviz_failed e) s)) \<and>
   (sv_analyze ev (df s) = None \<and>
    sv_show_html ev (df s) (report_path cfg @ ''sweetviz_report.html'') = Some e \<longrightarrow>
      generate_sweetviz cfg ev s = Inr (logger Error (Sweetviz_failed e) s)) \<and>
   (run_steps (butlast (steps cfg ev)) init = Inr s \<longrightarrow>
      (\<exists>s'. generate_sweetviz cfg ev s = Inr s' \<and>
            run cfg ev = Inr (logger Info Pipeline_completed s')))"
proof (intro conjI impI)
  show ret: "\<exists>s'. generate_sweetviz cfg ev s = Inr s'"
    by (simp add: generate_sweetviz_def split: option.splits)
  show "generate_sweetviz cfg ev s = Inr (logger Error (Sweetviz_failed e) s)"
    if "sv_analyze ev (df s) = Some e"
    using that by (simp add: generate_sweetviz_def)
  show "generate_sweetviz cfg ev s = Inr (logger Error (Sweetviz_failed e) s)"
    if "sv_analyze ev (df s) = None \<and>
        sv_show_html ev (df s) (report_path cfg @ ''sweetviz_report.html'') = Some e"
    using that by (simp add: generate_sweetviz_def)
  show "\<exists>s'. generate_sweetviz cfg ev s = Inr s' \<and>
            run cfg ev = Inr (logger Info Pipeline_completed s')"
    if pre: "run_steps (butlast (steps cfg ev)) init = Inr s"
  proof -
    from ret obtain s' where s': "generate_sweetviz cfg ev s = Inr s'" ..
    have "steps cfg ev = butlast (steps cfg ev) @ [generate_sweetviz cfg ev]"
      by (simp add: steps_def)
    then have "run_steps (steps cfg ev) init =
        (case run_steps (butlast (steps cfg ev)) init of
           Inl e \<Rightarrow> Inl e
         | Inr s1 \<Rightarrow> run_steps [generate_sweetviz cfg ev] s1)"
      using run_steps_append [of "butlast (steps cfg ev)" "[generate_sweetviz cfg ev]" init]
      by simp
    with pre s' have "run_steps (steps cfg ev) init = Inr s'"
      by (simp add: run_steps_Cons)
    then have "run cfg ev = Inr (logger Info Pipeline_completed s')"
      by (simp add: run_def)
    with s' show ?thesis by blast
  qed
qed

theorem sweetviz_failure_never_aborts_witness:
  "run_steps (butlast (steps demo_cfg failing_env)) init = Inr demo_analysed \<and>
   sv_analyze failing_env (df demo_analysed) = Some (RuntimeError ''report failed'') \<and>
   generate_sweetviz demo_cfg failing_env demo_analysed =
     Inr (logger Error (Sweetviz_failed (RuntimeError ''report failed'')) demo_analysed) \<and>
   run demo_cfg failing_env =
     Inr (logger Info Pipeline_completed
            (logger Error (Sweetviz_failed (RuntimeError ''report failed'')) demo_analysed))"
proof -
  have f: "sv_analyze failing_env (df demo_analysed) = Some (RuntimeError ''report failed'')"
    by (simp add: failing_env_def)
  from sweetviz_failure_never_aborts
         [of demo_cfg failing_env demo_analysed "RuntimeError ''report failed''"]
       demo_before_report f
  show ?thesis
    by auto
qed

subsection \<open>The binary-target check\<close>

lemma length_unique: "length (unique xs) = card (set xs)"
  by (simp add: unique_def length_remdups_card_conv)

text \<open>
  C10. The binary-target check counts a missing entry as a value: when the target has
  exactly two distinct values among its non-missing entries and at least one missing
  entry, \<open>unique\<close> has three elements, and the target analysis logs the warning and
  returns, with nothing written.
\<close>

theorem missing_target_value_counts:
  assumes "plots_target_analysis cfg"
    and "getitem (df s) (target_column cfg) = Inr t"
    and "Num NaN \<in> set (col_values t)"
    and "set (filter (\<lambda>v. \<not> isnull v) (col_values t)) = {a, b}"
    and "a \<noteq> b"
  shows "length (unique (col_values t)) = 3 \<and>
         target_analysis cfg ev s = Inr (s\<lparr>logged := logged s @ [(Warning, Requires_binary_target)]\<rparr>)"
proof -
  from assms(4) have "a \<in> set (filter (\<lambda>v. \<not> isnull v) (col_values t))"
    and "b \<in> set (filter (\<lambda>v. \<not> isnull v) (col_values t))"
    by simp_all
  then have ab: "a \<noteq> Num NaN" "b \<noteq> Num NaN"
    by (auto simp add: isnull_def)
  have "set (col_values t) = {a, b, Num NaN}"
    using assms(3,4) by (auto simp add: isnull_def)
  with ab assms(5) have three: "length (unique (col_values t)) = 3"
    by (simp add: length_unique)
  with assms(1,2) show ?thesis
    by (simp add: target_analysis_def Let_def logger_def)
qed

theorem missing_target_value_counts_witness:
  "plots_target_analysis demo_cfg \<and>
   getitem (df gappy_state) (target_column demo_cfg) = Inr gappy_target \<and>
   Num NaN \<in> set (col_values gappy_target) \<and>
   set (filter (\<lambda>v. \<not> isnull v) (col_values gappy_target)) = {Num (Finite 0), Num (Finite 1)} \<and>
   length (unique (col_values gappy_target)) = 3 \<and>
   target_analysis demo_cfg demo_env gappy_state =
     Inr (gappy_state\<lparr>logged := [(Warning, Requires_binary_target)]\<rparr>)"
proof -
  have a: "plots_target_analysis demo_cfg"
    by (simp add: demo_cfg_def)
  have b: "getitem (df gappy_state) (target_column demo_cfg) = Inr gappy_target"
    by (simp add: getitem_def gappy_state_def gappy_target_def demo_cfg_def)
  have c: "Num NaN \<in> set (col_values gappy_target)"
    by (simp add: gappy_target_def)
  have d: "set (filter (\<lambda>v. \<not> isnull v) (col_values gappy_target)) =
      {Num (Finite 0), Num (Finite 1)}"
    by (auto simp add: gappy_target_def isnull_def)
  have e: "Num (Finite 0) \<noteq> Num (Finite 1)"
    by simp
  have l: "logged gappy_state = []"
    by (simp add: gappy_state_def init_def)
  from missing_target_value_counts [OF a b c d e, of demo_env] a b c d l
  show ?thesis
    by simp
qed




subsection \<open>The feature-target correlation\<close>






end
